theory Spec2Isabelle
  imports Complex_Main
begin

section \<open>ChazeFashion: the catalog application (catalog/models.py, catalog/views.py)\<close>

text \<open>
  A shallow embedding of the Django application. The relational store is an explicit
  record of tables, each table a list of rows in query order. Every view takes the
  request and the store and returns the store it leaves behind, the messages it queued
  and its response. An exception does not undo the writes made before it, so a failing
  operation returns the store as well.

  Modelling decisions for what lies outside the two source files:
  \<^item> strings are lists of 8-bit characters; the parsers and the case folding below
    treat the ASCII range (Python's \<^verbatim>\<open>int\<close>, \<^verbatim>\<open>float\<close> and the ORM's
    \<^verbatim>\<open>icontains\<close> also know non-ASCII digits, spaces and letters);
  \<^item> \<^verbatim>\<open>float(s)\<close> is the exact rational value of the literal: the rounding to a
    binary64 and the backend's conversion of the bound to a decimal are not modelled;
  \<^item> a \<^verbatim>\<open>DecimalField\<close> is a rational, a \<^verbatim>\<open>PositiveIntegerField\<close> an
    unbounded integer: the column ranges of the database backend are not modelled;
  \<^item> an ORM lookup means what its name says (\<^verbatim>\<open>gte\<close> is \<open>\<ge>\<close>, \<^verbatim>\<open>exact\<close> is
    equality, \<^verbatim>\<open>icontains\<close> is a case-insensitive substring test);
  \<^item> requests are handled one at a time.
\<close>

subsection \<open>Python's \<^verbatim>\<open>int(str)\<close> and \<^verbatim>\<open>float(str)\<close>\<close>

definition is_space :: "char \<Rightarrow> bool" where
  "is_space c \<longleftrightarrow> (let n = (of_char c :: nat) in (9 \<le> n \<and> n \<le> 13) \<or> (28 \<le> n \<and> n \<le> 32))"

definition is_digit :: "char \<Rightarrow> bool" where
  "is_digit c \<longleftrightarrow> (let n = (of_char c :: nat) in 48 \<le> n \<and> n \<le> 57)"

definition digit_val :: "char \<Rightarrow> nat" where
  "digit_val c = (of_char c :: nat) - 48"

definition strip :: "string \<Rightarrow> string" where
  "strip s = rev (dropWhile is_space (rev (dropWhile is_space s)))"

text \<open>
  A digit part is \<^verbatim>\<open>digit (["_"] digit)*\<close>: \<open>digitpart\<close> returns its digits with
  the underscores removed, or \<open>None\<close> when the text is not a digit part.
\<close>

fun digits_after :: "string \<Rightarrow> string option" where
  "digits_after [] = Some []"
| "digits_after [c] = (if is_digit c then Some [c] else None)"
| "digits_after (c # d # cs) =
     (if is_digit c then map_option ((#) c) (digits_after (d # cs))
      else if c = CHR ''_'' \<and> is_digit d then map_option ((#) d) (digits_after cs)
      else None)"

definition digitpart :: "string \<Rightarrow> string option" where
  "digitpart s = (case s of [] \<Rightarrow> None
                  | c # cs \<Rightarrow> if is_digit c then digits_after s else None)"

definition nat_of_digits :: "string \<Rightarrow> nat" where
  "nat_of_digits ds = foldl (\<lambda>acc c. 10 * acc + digit_val c) 0 ds"

text \<open>An optional sign: the sign read and the rest of the text.\<close>

fun take_sign :: "string \<Rightarrow> bool \<times> string" where
  "take_sign [] = (False, [])"
| "take_sign (c # cs) =
     (if c = CHR ''-'' then (True, cs)
      else if c = CHR ''+'' then (False, cs)
      else (False, c # cs))"

text \<open>
  \<^verbatim>\<open>int(s)\<close> for a string in base 10: \<open>None\<close> is \<^verbatim>\<open>ValueError\<close>.
\<close>

definition py_int :: "string \<Rightarrow> int option" where
  "py_int s =
     (case take_sign (strip s) of (neg, body) \<Rightarrow>
        (case digitpart body of
           None \<Rightarrow> None
         | Some ds \<Rightarrow> Some (if neg then - int (nat_of_digits ds) else int (nat_of_digits ds))))"









text \<open>\<^verbatim>\<open>str(n)\<close> for a primary key, as the f-string \<^verbatim>\<open>f'quantity_{item.id}'\<close> prints it.\<close>

function str_nat :: "nat \<Rightarrow> string" where
  "str_nat n = (if n < 10 then [''0123456789'' ! n] else str_nat (n div 10) @ [''0123456789'' ! (n mod 10)])"
  by pat_completeness auto
termination
  by (relation "measure id") auto


subsection \<open>The data model (catalog/models.py)\<close>

text \<open>
  One record per model class, with the columns the views read or write (the columns of
  \<^verbatim>\<open>Product\<close> that no view touches are left out). A foreign key is the primary key
  of the row it points to.
\<close>

record auth_user =
  user_id :: nat
  username :: string

record product =
  pr_id :: nat
  pr_cate :: string
  pr_name :: string
  pr_price :: rat
  pr_season :: string
  pr_fabric :: string
  pr_brand :: string

record cart =
  cart_id :: nat
  cart_user :: nat

record user_profile =
  profile_id :: nat
  profile_user :: nat
  phone :: string
  address :: string
  wallet_balance :: rat

record wishlist =
  wishlist_id :: nat
  wishlist_user :: nat

record cart_item =
  item_id :: nat
  item_cart :: nat
  item_product :: nat
  quantity :: int

record ordered_item =
  ordered_id :: nat
  ordered_product :: nat
  ordered_quantity :: int
  price :: rat

text \<open>
  The store: the tables, the link table of \<^verbatim>\<open>Wishlist.products\<close> (wishlist id,
  product id), and the lines the signal handlers print.
\<close>

record state =
  users :: "auth_user list"
  products :: "product list"
  carts :: "cart list"
  profiles :: "user_profile list"
  wishlists :: "wishlist list"
  wishlist_products :: "(nat \<times> nat) list"
  cart_items :: "cart_item list"
  ordered_items :: "ordered_item list"
  printed :: "string list"

datatype error =
  DoesNotExist | MultipleObjectsReturned | IntegrityError | Http404 | OperationalError

definition error_text :: "error \<Rightarrow> string" where
  "error_text e =
     (case e of DoesNotExist \<Rightarrow> ''DoesNotExist''
      | MultipleObjectsReturned \<Rightarrow> ''MultipleObjectsReturned''
      | IntegrityError \<Rightarrow> ''IntegrityError''
      | Http404 \<Rightarrow> ''Http404''
      | OperationalError \<Rightarrow> ''OperationalError'')"

subsection \<open>The ORM operations the code calls\<close>

text \<open>\<^verbatim>\<open>QuerySet.get\<close> on the rows a query selects.\<close>

definition orm_get :: "'r list \<Rightarrow> error + 'r" where
  "orm_get rows =
     (case rows of [] \<Rightarrow> Inl DoesNotExist | [r] \<Rightarrow> Inr r | _ \<Rightarrow> Inl MultipleObjectsReturned)"

definition get_object_or_404 :: "'r list \<Rightarrow> error + 'r" where
  "get_object_or_404 rows =
     (case orm_get rows of Inl DoesNotExist \<Rightarrow> Inl Http404 | Inl e \<Rightarrow> Inl e | Inr r \<Rightarrow> Inr r)"

text \<open>An \<^verbatim>\<open>AutoField\<close> gives a new row a key above every key of the table.\<close>

definition next_id :: "nat list \<Rightarrow> nat" where
  "next_id ids = Suc (foldr max ids 0)"

text \<open>
  \<^verbatim>\<open>QuerySet.get_or_create\<close> on one table: \<open>matches\<close> is the lookup, \<open>mk\<close> builds
  the new row from its key, \<open>pk\<close> reads a key, and \<open>clash x r\<close> says that the row \<open>x\<close>
  forbids the insertion of \<open>r\<close> (the unique constraint of a \<^verbatim>\<open>OneToOneField\<close>). As
  in Django, an insertion that meets the constraint looks the row up once more and
  raises \<^verbatim>\<open>IntegrityError\<close> if it is still not there.
\<close>

definition get_or_create ::
  "('r \<Rightarrow> bool) \<Rightarrow> (nat \<Rightarrow> 'r) \<Rightarrow> ('r \<Rightarrow> nat) \<Rightarrow> ('r \<Rightarrow> 'r \<Rightarrow> bool) \<Rightarrow> 'r list
     \<Rightarrow> (error + 'r \<times> bool) \<times> 'r list" where
  "get_or_create matches mk pk clash rows =
     (case orm_get (filter matches rows) of
        Inr r \<Rightarrow> (Inr (r, False), rows)
      | Inl DoesNotExist \<Rightarrow>
          (let r = mk (next_id (map pk rows)) in
           if list_ex (\<lambda>x. clash x r) rows then
             (case orm_get (filter matches rows) of
                Inr r' \<Rightarrow> (Inr (r', False), rows)
              | Inl e \<Rightarrow> (Inl IntegrityError, rows))
           else (Inr (r, True), rows @ [r]))
      | Inl e \<Rightarrow> (Inl e, rows))"

definition Cart_get_or_create :: "nat \<Rightarrow> state \<Rightarrow> (error + cart \<times> bool) \<times> state" where
  "Cart_get_or_create uid s =
     (case get_or_create (\<lambda>c. cart_user c = uid) (\<lambda>i. \<lparr>cart_id = i, cart_user = uid\<rparr>)
             cart_id (\<lambda>x r. cart_user x = cart_user r) (carts s) of
        (res, rows) \<Rightarrow> (res, s\<lparr>carts := rows\<rparr>))"

definition UserProfile_get_or_create ::
  "nat \<Rightarrow> state \<Rightarrow> (error + user_profile \<times> bool) \<times> state" where
  "UserProfile_get_or_create uid s =
     (case get_or_create (\<lambda>p. profile_user p = uid)
             (\<lambda>i. \<lparr>profile_id = i, profile_user = uid, phone = [], address = [],
                   wallet_balance = 0\<rparr>)
             profile_id (\<lambda>x r. profile_user x = profile_user r) (profiles s) of
        (res, rows) \<Rightarrow> (res, s\<lparr>profiles := rows\<rparr>))"

definition Wishlist_get_or_create :: "nat \<Rightarrow> state \<Rightarrow> (error + wishlist \<times> bool) \<times> state" where
  "Wishlist_get_or_create uid s =
     (case get_or_create (\<lambda>w. wishlist_user w = uid)
             (\<lambda>i. \<lparr>wishlist_id = i, wishlist_user = uid\<rparr>)
             wishlist_id (\<lambda>x r. wishlist_user x = wishlist_user r) (wishlists s) of
        (res, rows) \<Rightarrow> (res, s\<lparr>wishlists := rows\<rparr>))"


text \<open>
  \<^verbatim>\<open>item.save()\<close> of a loaded row updates the row of that key and inserts the row when
  the update finds none; \<^verbatim>\<open>item.delete()\<close> deletes by key.
\<close>

definition save_cart_item :: "cart_item \<Rightarrow> state \<Rightarrow> state" where
  "save_cart_item item s =
     (if list_ex (\<lambda>r. item_id r = item_id item) (cart_items s)
      then s\<lparr>cart_items := map (\<lambda>r. if item_id r = item_id item then item else r) (cart_items s)\<rparr>
      else s\<lparr>cart_items := cart_items s @ [item]\<rparr>)"

definition delete_cart_item :: "cart_item \<Rightarrow> state \<Rightarrow> state" where
  "delete_cart_item item s = s\<lparr>cart_items := filter (\<lambda>r. item_id r \<noteq> item_id item) (cart_items s)\<rparr>"

subsection \<open>Requests, messages and responses\<close>

record request =
  "method" :: string
  user :: "auth_user option"
  GET :: "string \<rightharpoonup> string"
  POST :: "string \<rightharpoonup> string"

datatype level = Success | Info | Error

type_synonym message = "level \<times> string"

text \<open>
  What a view answers: a redirect to a named URL (with its argument, if any), a rendered
  template with the context the claims speak of, or an exception that leaves the view
  (the framework turns \<^verbatim>\<open>Http404\<close> into a not-found page).
\<close>

datatype response =
    Redirect string
  | Redirect_arg string nat
  | Render_product_list "product list"
  | Render_cart "(cart_item \<times> product) list" rat
  | Render string
  | Raised error


subsection \<open>The catalog query (views.product\_list)\<close>










subsection \<open>The cart (views.add\_to\_cart, views.cart, views.remove\_from\_cart)\<close>

text \<open>
  \<^verbatim>\<open>@login_required\<close> sends a request without a user to the login page; the views
  below start with that test.

  The quantity of \<^verbatim>\<open>add_to_cart\<close>: \<^verbatim>\<open>int(request.POST.get('quantity', 1))\<close>, and 1
  when the value does not parse or is not positive.
\<close>

definition requested_quantity :: "request \<Rightarrow> int" where
  "requested_quantity request =
     (case POST request ''quantity'' of
        None \<Rightarrow> 1
      | Some v \<Rightarrow> (case py_int v of None \<Rightarrow> 1 | Some q \<Rightarrow> if q \<le> 0 then 1 else q))"


text \<open>
  \<^verbatim>\<open>cart.items.select_related('product').all()\<close>: the items of the cart, each joined
  with its product.
\<close>

definition cart_rows :: "cart \<Rightarrow> state \<Rightarrow> (cart_item \<times> product) list" where
  "cart_rows c s =
     [(i, p). i \<leftarrow> cart_items s, item_cart i = cart_id c, p \<leftarrow> products s, pr_id p = item_product i]"

definition qty_key :: "cart_item \<Rightarrow> string" where
  "qty_key item = ''quantity_'' @ str_nat (item_id item)"

text \<open>
  \<^verbatim>\<open>int(request.POST.get(qty_key, item.quantity))\<close>: a missing key gives the item's own
  quantity, which \<^verbatim>\<open>int\<close> returns as it is; \<open>None\<close> is \<^verbatim>\<open>ValueError\<close>.
\<close>

definition posted_qty :: "(string \<rightharpoonup> string) \<Rightarrow> cart_item \<Rightarrow> int option" where
  "posted_qty post item =
     (case post (qty_key item) of None \<Rightarrow> Some (quantity item) | Some v \<Rightarrow> py_int v)"

text \<open>
  The loop of the POST branch, over the objects the query returned. It gives back the
  exception that stopped it, if any, the objects as the loop leaves them in memory, and
  the store. A query set keeps the objects of its first evaluation: the loop changes
  the quantity of an object it saves, and an object it deletes stays in the list.
\<close>

fun update_quantities ::
  "(string \<rightharpoonup> string) \<Rightarrow> (cart_item \<times> product) list \<Rightarrow> state
     \<Rightarrow> bool \<times> (cart_item \<times> product) list \<times> state" where
  "update_quantities post [] s = (True, [], s)"
| "update_quantities post ((item, p) # rest) s =
     (case posted_qty post item of
        None \<Rightarrow> (False, (item, p) # rest, s)
      | Some qty \<Rightarrow>
          if qty > 0 then
            (let item' = item\<lparr>quantity := qty\<rparr> in
             case update_quantities post rest (save_cart_item item' s) of
               (ok, rest', s') \<Rightarrow> (ok, (item', p) # rest', s'))
          else
            (case update_quantities post rest (delete_cart_item item s) of
               (ok, rest', s') \<Rightarrow> (ok, (item, p) # rest', s')))"

text \<open>\<^verbatim>\<open>sum(item.product.pr_price * item.quantity for item in cart_items)\<close>\<close>

definition cart_total :: "(cart_item \<times> product) list \<Rightarrow> rat" where
  "cart_total rows = sum_list (map (\<lambda>(item, p). pr_price p * of_int (quantity item)) rows)"

definition cart :: "request \<Rightarrow> state \<Rightarrow> state \<times> message list \<times> response" where
  "cart request s =
     (case user request of
        None \<Rightarrow> (s, [], Redirect ''login'')
      | Some u \<Rightarrow>
          (case Cart_get_or_create (user_id u) s of
             (Inl e, s1) \<Rightarrow> (s1, [], Raised e)
           | (Inr (c, created), s1) \<Rightarrow>
               (let cart_items' = cart_rows c s1 in
                if method request = ''POST'' then
                  (case update_quantities (POST request) cart_items' s1 of
                     (True, rows, s2) \<Rightarrow>
                       (s2, [(Success, ''Cart updated successfully!'')], Redirect ''cart'')
                   | (False, rows, s2) \<Rightarrow>
                       (s2, [(Error, ''Invalid quantity values. Please enter valid numbers.'')],
                        Render_cart rows (cart_total rows)))
                else (s1, [], Render_cart cart_items' (cart_total cart_items')))))"

text \<open>
  \<^verbatim>\<open>get_object_or_404(CartItem, id=item_id, cart__user=request.user)\<close> joins the item
  with its cart. Every exception of the body, \<^verbatim>\<open>Http404\<close> included, is caught.
\<close>

definition remove_from_cart :: "request \<Rightarrow> nat \<Rightarrow> state \<Rightarrow> state \<times> message list \<times> response" where
  "remove_from_cart request iid s =
     (case user request of
        None \<Rightarrow> (s, [], Redirect ''login'')
      | Some u \<Rightarrow>
          (case get_object_or_404
                  [i. i \<leftarrow> cart_items s, item_id i = iid,
                      c \<leftarrow> carts s, cart_id c = item_cart i, cart_user c = user_id u] of
             Inl e \<Rightarrow> (s, [(Error, ''Error removing item from cart.'')], Redirect ''cart'')
           | Inr cart_item \<Rightarrow>
               (case orm_get (filter (\<lambda>p. pr_id p = item_product cart_item) (products s)) of
                  Inl e \<Rightarrow> (s, [(Error, ''Error removing item from cart.'')], Redirect ''cart'')
                | Inr product \<Rightarrow>
                    (delete_cart_item cart_item s,
                     [(Success, pr_name product @ '' removed from cart.'')],
                     Redirect ''cart''))))"


subsection \<open>The wishlist (views.add\_to\_wishlist, views.remove\_from\_wishlist)\<close>

text \<open>
  \<^verbatim>\<open>user_wishlist.products.filter(pr_id=product_id).exists()\<close> joins the link table
  with the products. \<^verbatim>\<open>products.add\<close> inserts the link unless the table has it,
  \<^verbatim>\<open>products.remove\<close> deletes it.
\<close>

definition wishlist_has :: "wishlist \<Rightarrow> nat \<Rightarrow> state \<Rightarrow> bool" where
  "wishlist_has w product_id s \<longleftrightarrow>
     [p. (wid, pid) \<leftarrow> wishlist_products s, wid = wishlist_id w,
         p \<leftarrow> products s, pr_id p = pid, pr_id p = product_id] \<noteq> []"

definition products_add :: "wishlist \<Rightarrow> product \<Rightarrow> state \<Rightarrow> state" where
  "products_add w p s =
     (if (wishlist_id w, pr_id p) \<in> set (wishlist_products s) then s
      else s\<lparr>wishlist_products := wishlist_products s @ [(wishlist_id w, pr_id p)]\<rparr>)"

definition products_remove :: "wishlist \<Rightarrow> product \<Rightarrow> state \<Rightarrow> state" where
  "products_remove w p s =
     s\<lparr>wishlist_products := filter (\<lambda>l. l \<noteq> (wishlist_id w, pr_id p)) (wishlist_products s)\<rparr>"

definition add_to_wishlist :: "request \<Rightarrow> nat \<Rightarrow> state \<Rightarrow> state \<times> message list \<times> response" where
  "add_to_wishlist request product_id s =
     (case user request of
        None \<Rightarrow> (s, [], Redirect ''login'')
      | Some u \<Rightarrow>
          (case get_object_or_404 (filter (\<lambda>p. pr_id p = product_id) (products s)) of
             Inl e \<Rightarrow> (s, [], Raised e)
           | Inr product \<Rightarrow>
               (case Wishlist_get_or_create (user_id u) s of
                  (Inl e, s1) \<Rightarrow> (s1, [], Raised e)
                | (Inr (user_wishlist, created), s1) \<Rightarrow>
                    if wishlist_has user_wishlist product_id s1 then
                      (s1, [(Info, pr_name product @ '' is already in your wishlist!'')],
                       Redirect_arg ''product_detail'' product_id)
                    else
                      (products_add user_wishlist product s1,
                       [(Success, pr_name product @ '' added to wishlist!'')],
                       Redirect_arg ''product_detail'' product_id))))"

definition remove_from_wishlist ::
  "request \<Rightarrow> nat \<Rightarrow> state \<Rightarrow> state \<times> message list \<times> response" where
  "remove_from_wishlist request product_id s =
     (case user request of
        None \<Rightarrow> (s, [], Redirect ''login'')
      | Some u \<Rightarrow>
          (case get_object_or_404 (filter (\<lambda>p. pr_id p = product_id) (products s)) of
             Inl e \<Rightarrow> (s, [(Error, ''Error removing product from wishlist.'')], Redirect ''wishlist'')
           | Inr product \<Rightarrow>
               (case Wishlist_get_or_create (user_id u) s of
                  (Inl e, s1) \<Rightarrow>
                    (s1, [(Error, ''Error removing product from wishlist.'')], Redirect ''wishlist'')
                | (Inr (user_wishlist, created), s1) \<Rightarrow>
                    if wishlist_has user_wishlist product_id s1 then
                      (products_remove user_wishlist product s1,
                       [(Success, pr_name product @ '' removed from wishlist.'')],
                       Redirect ''wishlist'')
                    else
                      (s1, [(Info, ''Product was not in your wishlist.'')], Redirect ''wishlist''))))"

subsection \<open>The signal handlers of user creation (models.py)\<close>

text \<open>
  The spec speaks of storage errors during provisioning. Each \<^verbatim>\<open>get_or_create\<close> of the
  four receivers is a call site, and \<open>faults\<close> says at which call sites the storage
  raises during this dispatch; \<open>no_faults\<close> is a store that works.
\<close>

datatype call_site =
    Handler_cart | Handler_profile | Handler_wishlist
  | Receiver_cart | Receiver_profile | Receiver_wishlist

definition no_faults :: "call_site \<Rightarrow> bool" where
  "no_faults site = False"

definition storage ::
  "bool \<Rightarrow> (state \<Rightarrow> (error + 'a) \<times> state) \<Rightarrow> state \<Rightarrow> (error + 'a) \<times> state" where
  "storage fails operation s = (if fails then (Inl OperationalError, s) else operation s)"

definition print :: "string \<Rightarrow> state \<Rightarrow> state" where
  "print line s = s\<lparr>printed := printed s @ [line]\<rparr>"

definition created_text :: "bool \<Rightarrow> string" where
  "created_text created = (if created then ''created'' else ''already existed'')"

text \<open>
  The body of the \<^verbatim>\<open>try\<close> of \<^verbatim>\<open>create_user_profile_and_related_objects\<close>: the
  exception that leaves it, if any, and the store.
\<close>

definition provision :: "(call_site \<Rightarrow> bool) \<Rightarrow> auth_user \<Rightarrow> state \<Rightarrow> error option \<times> state" where
  "provision faults instance s =
     (case storage (faults Handler_cart) (Cart_get_or_create (user_id instance)) s of
        (Inl e, s1) \<Rightarrow> (Some e, s1)
      | (Inr (c, cart_created), s1) \<Rightarrow>
          (case storage (faults Handler_profile) (UserProfile_get_or_create (user_id instance)) s1 of
             (Inl e, s2) \<Rightarrow> (Some e, s2)
           | (Inr (pr, profile_created), s2) \<Rightarrow>
               (case storage (faults Handler_wishlist) (Wishlist_get_or_create (user_id instance)) s2 of
                  (Inl e, s3) \<Rightarrow> (Some e, s3)
                | (Inr (w, wishlist_created), s3) \<Rightarrow>
                    (None,
                     print (''  - Wishlist: '' @ created_text wishlist_created)
                       (print (''  - Profile: '' @ created_text profile_created)
                          (print (''  - Cart: '' @ created_text cart_created)
                             (print (''User '' @ username instance @ '' created:'') s3)))))))"

definition create_user_profile_and_related_objects ::
  "(call_site \<Rightarrow> bool) \<Rightarrow> auth_user \<Rightarrow> bool \<Rightarrow> state \<Rightarrow> state" where
  "create_user_profile_and_related_objects faults instance created s =
     (if created then
        (case provision faults instance s of
           (None, s') \<Rightarrow> s'
         | (Some e, s') \<Rightarrow>
             print (''Error creating user-related objects for '' @ username instance @ '': ''
                    @ error_text e) s')
      else s)"

text \<open>The three receivers without a \<^verbatim>\<open>try\<close>: the exception that leaves them, and the store.\<close>

definition create_user_cart ::
  "(call_site \<Rightarrow> bool) \<Rightarrow> auth_user \<Rightarrow> bool \<Rightarrow> state \<Rightarrow> error option \<times> state" where
  "create_user_cart faults instance created s =
     (if created then
        (case storage (faults Receiver_cart) (Cart_get_or_create (user_id instance)) s of
           (Inl e, s') \<Rightarrow> (Some e, s')
         | (Inr r, s') \<Rightarrow> (None, s'))
      else (None, s))"

definition create_user_profile ::
  "(call_site \<Rightarrow> bool) \<Rightarrow> auth_user \<Rightarrow> bool \<Rightarrow> state \<Rightarrow> error option \<times> state" where
  "create_user_profile faults instance created s =
     (if created then
        (case storage (faults Receiver_profile) (UserProfile_get_or_create (user_id instance)) s of
           (Inl e, s') \<Rightarrow> (Some e, s')
         | (Inr r, s') \<Rightarrow> (None, s'))
      else (None, s))"

definition create_user_wishlist ::
  "(call_site \<Rightarrow> bool) \<Rightarrow> auth_user \<Rightarrow> bool \<Rightarrow> state \<Rightarrow> error option \<times> state" where
  "create_user_wishlist faults instance created s =
     (if created then
        (case storage (faults Receiver_wishlist) (Wishlist_get_or_create (user_id instance)) s of
           (Inl e, s') \<Rightarrow> (Some e, s')
         | (Inr r, s') \<Rightarrow> (None, s'))
      else (None, s))"

text \<open>
  \<^verbatim>\<open>post_save.send(sender=User, ...)\<close> calls the four receivers in the order the
  module registers them; an exception of a receiver leaves \<^verbatim>\<open>send\<close> at once.
\<close>

definition post_save_User ::
  "(call_site \<Rightarrow> bool) \<Rightarrow> auth_user \<Rightarrow> bool \<Rightarrow> state \<Rightarrow> error option \<times> state" where
  "post_save_User faults instance created s =
     (let s1 = create_user_profile_and_related_objects faults instance created s in
      case create_user_cart faults instance created s1 of
        (Some e, s2) \<Rightarrow> (Some e, s2)
      | (None, s2) \<Rightarrow>
          (case create_user_profile faults instance created s2 of
             (Some e, s3) \<Rightarrow> (Some e, s3)
           | (None, s3) \<Rightarrow> create_user_wishlist faults instance created s3))"

text \<open>
  Saving a new \<^verbatim>\<open>User\<close> inserts its row and then sends \<^verbatim>\<open>post_save\<close> with
  \<^verbatim>\<open>created=True\<close>; the row stays when a receiver raises.
\<close>

definition User_save_new ::
  "(call_site \<Rightarrow> bool) \<Rightarrow> string \<Rightarrow> state \<Rightarrow> (error + auth_user) \<times> state" where
  "User_save_new faults name s =
     (let instance = \<lparr>user_id = next_id (map user_id (users s)), username = name\<rparr>;
          s1 = s\<lparr>users := users s @ [instance]\<rparr>
      in case post_save_User faults instance True s1 of
           (Some e, s2) \<Rightarrow> (Inl e, s2)
         | (None, s2) \<Rightarrow> (Inr instance, s2))"

text \<open>
  The branch of \<^verbatim>\<open>signup\<close> for a POST whose form is valid, \<open>name\<close> being the
  user name of the form: \<^verbatim>\<open>form.save()\<close> inside the \<^verbatim>\<open>try\<close>.
\<close>

definition signup :: "(call_site \<Rightarrow> bool) \<Rightarrow> string \<Rightarrow> state \<Rightarrow> state \<times> message list \<times> response" where
  "signup faults name s =
     (case User_save_new faults name s of
        (Inr u, s') \<Rightarrow>
          (s', [(Success, ''Welcome to ChazeFashion, '' @ username u
                          @ ''! Your account has been created successfully.'')],
           Redirect ''home'')
      | (Inl e, s') \<Rightarrow>
          (s', [(Error, ''Error creating account: '' @ error_text e @ ''. Please try again.'')],
           Render ''catalog/signup.html''))"


text \<open>
  For the statements about provisioning: the numbers of profiles, carts and wishlists a
  user has, and the combined handler as it runs for a new user on a store that works.
\<close>

definition dependents :: "nat \<Rightarrow> state \<Rightarrow> nat \<times> nat \<times> nat" where
  "dependents uid s =
     (length (filter (\<lambda>p. profile_user p = uid) (profiles s)),
      length (filter (\<lambda>c. cart_user c = uid) (carts s)),
      length (filter (\<lambda>w. wishlist_user w = uid) (wishlists s)))"

abbreviation provisioning :: "auth_user \<Rightarrow> state \<Rightarrow> state" where
  "provisioning u \<equiv> create_user_profile_and_related_objects no_faults u True"


text \<open>The item lies in a cart of the user.\<close>

definition owns :: "nat \<Rightarrow> cart_item \<Rightarrow> state \<Rightarrow> bool" where
  "owns uid i s \<longleftrightarrow> (\<exists>c\<in>set (carts s). cart_id c = item_cart i \<and> cart_user c = uid)"

section \<open>Example stores and requests\<close>

definition ann :: auth_user where
  "ann = \<lparr>user_id = 1, username = ''ann''\<rparr>"

definition bob :: auth_user where
  "bob = \<lparr>user_id = 2, username = ''bob''\<rparr>"

definition shirt :: product where
  "shirt = \<lparr>pr_id = 1, pr_cate = ''Men'', pr_name = ''Shirt'', pr_price = 25,
            pr_season = ''Summer'', pr_fabric = ''Cotton'', pr_brand = ''Acme''\<rparr>"

definition coat :: product where
  "coat = \<lparr>pr_id = 2, pr_cate = ''Men'', pr_name = ''Coat'', pr_price = 150,
           pr_season = ''Winter'', pr_fabric = ''Wool'', pr_brand = ''Zed''\<rparr>"

definition scarf :: product where
  "scarf = \<lparr>pr_id = 3, pr_cate = ''Women'', pr_name = ''Scarf'', pr_price = 30,
            pr_season = ''Winter'', pr_fabric = ''Wool'', pr_brand = ''Acme''\<rparr>"

text \<open>
  A store with two users. Ann's cart holds two shirts (item 1) and one scarf (item 2),
  Bob's cart one coat (item 3); Ann's wishlist holds the coat.
\<close>

definition shop :: state where
  "shop = \<lparr>users = [ann, bob],
           products = [shirt, coat, scarf],
           carts = [\<lparr>cart_id = 1, cart_user = 1\<rparr>, \<lparr>cart_id = 2, cart_user = 2\<rparr>],
           profiles = [\<lparr>profile_id = 1, profile_user = 1, phone = [], address = [],
                        wallet_balance = 0\<rparr>,
                       \<lparr>profile_id = 2, profile_user = 2, phone = [], address = [],
                        wallet_balance = 0\<rparr>],
           wishlists = [\<lparr>wishlist_id = 1, wishlist_user = 1\<rparr>,
                        \<lparr>wishlist_id = 2, wishlist_user = 2\<rparr>],
           wishlist_products = [(1, 2)],
           cart_items = [\<lparr>item_id = 1, item_cart = 1, item_product = 1, quantity = 2\<rparr>,
                         \<lparr>item_id = 2, item_cart = 1, item_product = 3, quantity = 1\<rparr>,
                         \<lparr>item_id = 3, item_cart = 2, item_product = 2, quantity = 1\<rparr>],
           ordered_items = [],
           printed = []\<rparr>"


definition post_request :: "auth_user \<Rightarrow> (string \<times> string) list \<Rightarrow> request" where
  "post_request u params =
     \<lparr>method = ''POST'', user = Some u, GET = Map.empty, POST = map_of params\<rparr>"

text \<open>A user who has just been inserted: no dependent row yet.\<close>

definition carol :: auth_user where
  "carol = \<lparr>user_id = 3, username = ''carol''\<rparr>"



section \<open>Properties\<close>

subsection \<open>The catalog query\<close>












subsection \<open>Keys and \<^verbatim>\<open>get_or_create\<close>\<close>

lemma foldr_max_ge: "x \<in> set ids \<Longrightarrow> x \<le> foldr max ids (0::nat)"
  by (induction ids) auto

lemma next_id_fresh: "x \<in> set ids \<Longrightarrow> x < next_id ids"
  by (simp add: next_id_def foldr_max_ge less_Suc_eq_le)

lemma next_id_notin: "next_id ids \<notin> set ids"
  using next_id_fresh by blast

lemma short_list_cases: "length xs \<le> 1 \<Longrightarrow> xs = [] \<or> (\<exists>x. xs = [x])"
  by (cases xs) (auto simp: length_Suc_conv)

lemma get_or_create_found:
  "filter matches rows = [r] \<Longrightarrow> get_or_create matches mk pk clash rows = (Inr (r, False), rows)"
  by (simp add: get_or_create_def orm_get_def)

lemma get_or_create_created:
  assumes "filter matches rows = []"
    and "\<forall>x\<in>set rows. clash x (mk (next_id (map pk rows))) \<longrightarrow> matches x"
  shows "get_or_create matches mk pk clash rows
         = (Inr (mk (next_id (map pk rows)), True), rows @ [mk (next_id (map pk rows))])"
proof -
  from assms have "\<not> list_ex (\<lambda>x. clash x (mk (next_id (map pk rows)))) rows"
    by (auto simp: list_ex_iff filter_empty_conv)
  with assms(1) show ?thesis
    by (simp add: get_or_create_def orm_get_def Let_def)
qed

lemma get_or_create_no_integrity_error:
  "fst (get_or_create matches mk pk clash rows) \<noteq> Inl IntegrityError
   \<or> (\<exists>x\<in>set rows. clash x (mk (next_id (map pk rows))) \<and> \<not> matches x)"
  by (auto simp: get_or_create_def orm_get_def Let_def list_ex_iff filter_empty_conv
      split: list.splits)

lemma Cart_get_or_create_found:
  "filter (\<lambda>c. cart_user c = uid) (carts s) = [c] \<Longrightarrow>
   Cart_get_or_create uid s = (Inr (c, False), s)"
  by (simp add: Cart_get_or_create_def get_or_create_found)

lemma Cart_get_or_create_created:
  "filter (\<lambda>c. cart_user c = uid) (carts s) = [] \<Longrightarrow>
   Cart_get_or_create uid s
   = (Inr (\<lparr>cart_id = next_id (map cart_id (carts s)), cart_user = uid\<rparr>, True),
      s\<lparr>carts := carts s @ [\<lparr>cart_id = next_id (map cart_id (carts s)), cart_user = uid\<rparr>]\<rparr>)"
  by (simp add: Cart_get_or_create_def get_or_create_created filter_empty_conv)

lemma UserProfile_get_or_create_found:
  "filter (\<lambda>p. profile_user p = uid) (profiles s) = [p] \<Longrightarrow>
   UserProfile_get_or_create uid s = (Inr (p, False), s)"
  by (simp add: UserProfile_get_or_create_def get_or_create_found)

lemma UserProfile_get_or_create_created:
  "filter (\<lambda>p. profile_user p = uid) (profiles s) = [] \<Longrightarrow>
   UserProfile_get_or_create uid s
   = (Inr (\<lparr>profile_id = next_id (map profile_id (profiles s)), profile_user = uid, phone = [],
            address = [], wallet_balance = 0\<rparr>, True),
      s\<lparr>profiles := profiles s @ [\<lparr>profile_id = next_id (map profile_id (profiles s)),
            profile_user = uid, phone = [], address = [], wallet_balance = 0\<rparr>]\<rparr>)"
  by (simp add: UserProfile_get_or_create_def get_or_create_created filter_empty_conv)

lemma Wishlist_get_or_create_found:
  "filter (\<lambda>w. wishlist_user w = uid) (wishlists s) = [w] \<Longrightarrow>
   Wishlist_get_or_create uid s = (Inr (w, False), s)"
  by (simp add: Wishlist_get_or_create_def get_or_create_found)

lemma Wishlist_get_or_create_created:
  "filter (\<lambda>w. wishlist_user w = uid) (wishlists s) = [] \<Longrightarrow>
   Wishlist_get_or_create uid s
   = (Inr (\<lparr>wishlist_id = next_id (map wishlist_id (wishlists s)), wishlist_user = uid\<rparr>, True),
      s\<lparr>wishlists := wishlists s
           @ [\<lparr>wishlist_id = next_id (map wishlist_id (wishlists s)), wishlist_user = uid\<rparr>]\<rparr>)"
  by (simp add: Wishlist_get_or_create_def get_or_create_created filter_empty_conv)

lemma Cart_get_or_create_ok:
  assumes "length (filter (\<lambda>c. cart_user c = uid) (carts s)) \<le> 1"
  obtains c cr rows where
    "Cart_get_or_create uid s = (Inr (c, cr), s\<lparr>carts := rows\<rparr>)"
    "filter (\<lambda>c. cart_user c = uid) rows = [c]"
    "length (filter (\<lambda>c. cart_user c = uid) (carts s)) = 1 \<longrightarrow> rows = carts s"
proof -
  from short_list_cases [OF assms] show thesis
  proof (elim disjE exE)
    assume e: "filter (\<lambda>c. cart_user c = uid) (carts s) = []"
    show thesis
      by (rule that [of "\<lparr>cart_id = next_id (map cart_id (carts s)), cart_user = uid\<rparr>" True
            "carts s @ [\<lparr>cart_id = next_id (map cart_id (carts s)), cart_user = uid\<rparr>]"])
        (simp_all add: e Cart_get_or_create_created)
  next
    fix c assume e: "filter (\<lambda>c. cart_user c = uid) (carts s) = [c]"
    show thesis
      by (rule that [of c False "carts s"]) (simp_all add: e Cart_get_or_create_found)
  qed
qed

lemma UserProfile_get_or_create_ok:
  assumes "length (filter (\<lambda>p. profile_user p = uid) (profiles s)) \<le> 1"
  obtains p cr rows where
    "UserProfile_get_or_create uid s = (Inr (p, cr), s\<lparr>profiles := rows\<rparr>)"
    "filter (\<lambda>p. profile_user p = uid) rows = [p]"
    "length (filter (\<lambda>p. profile_user p = uid) (profiles s)) = 1 \<longrightarrow> rows = profiles s"
proof -
  from short_list_cases [OF assms] show thesis
  proof (elim disjE exE)
    assume e: "filter (\<lambda>p. profile_user p = uid) (profiles s) = []"
    show thesis
      by (rule that [of "\<lparr>profile_id = next_id (map profile_id (profiles s)), profile_user = uid,
              phone = [], address = [], wallet_balance = 0\<rparr>" True
            "profiles s @ [\<lparr>profile_id = next_id (map profile_id (profiles s)),
              profile_user = uid, phone = [], address = [], wallet_balance = 0\<rparr>]"])
        (simp_all add: e UserProfile_get_or_create_created)
  next
    fix p assume e: "filter (\<lambda>p. profile_user p = uid) (profiles s) = [p]"
    show thesis
      by (rule that [of p False "profiles s"]) (simp_all add: e UserProfile_get_or_create_found)
  qed
qed

lemma Wishlist_get_or_create_ok:
  assumes "length (filter (\<lambda>w. wishlist_user w = uid) (wishlists s)) \<le> 1"
  obtains w cr rows where
    "Wishlist_get_or_create uid s = (Inr (w, cr), s\<lparr>wishlists := rows\<rparr>)"
    "filter (\<lambda>w. wishlist_user w = uid) rows = [w]"
    "length (filter (\<lambda>w. wishlist_user w = uid) (wishlists s)) = 1 \<longrightarrow> rows = wishlists s"
proof -
  from short_list_cases [OF assms] show thesis
  proof (elim disjE exE)
    assume e: "filter (\<lambda>w. wishlist_user w = uid) (wishlists s) = []"
    show thesis
      by (rule that [of "\<lparr>wishlist_id = next_id (map wishlist_id (wishlists s)),
              wishlist_user = uid\<rparr>" True
            "wishlists s @ [\<lparr>wishlist_id = next_id (map wishlist_id (wishlists s)),
              wishlist_user = uid\<rparr>]"])
        (simp_all add: e Wishlist_get_or_create_created)
  next
    fix w assume e: "filter (\<lambda>w. wishlist_user w = uid) (wishlists s) = [w]"
    show thesis
      by (rule that [of w False "wishlists s"]) (simp_all add: e Wishlist_get_or_create_found)
  qed
qed

text \<open>What the body of the handler does on a store that works.\<close>

lemma provision_no_faults:
  assumes "length (filter (\<lambda>p. profile_user p = user_id u) (profiles s)) \<le> 1"
    and "length (filter (\<lambda>c. cart_user c = user_id u) (carts s)) \<le> 1"
    and "length (filter (\<lambda>w. wishlist_user w = user_id u) (wishlists s)) \<le> 1"
  obtains cs ps ws out where
    "provision no_faults u s = (None, s\<lparr>carts := cs, profiles := ps, wishlists := ws, printed := out\<rparr>)"
    "dependents (user_id u) (s\<lparr>carts := cs, profiles := ps, wishlists := ws, printed := out\<rparr>) = (1, 1, 1)"
    "dependents (user_id u) s = (1, 1, 1) \<longrightarrow> cs = carts s \<and> ps = profiles s \<and> ws = wishlists s"
proof -
  obtain c ccr cs where c: "Cart_get_or_create (user_id u) s = (Inr (c, ccr), s\<lparr>carts := cs\<rparr>)"
    "filter (\<lambda>c. cart_user c = user_id u) cs = [c]"
    "length (filter (\<lambda>c. cart_user c = user_id u) (carts s)) = 1 \<longrightarrow> cs = carts s"
    using Cart_get_or_create_ok [OF assms(2)] by blast
  let ?s1 = "s\<lparr>carts := cs\<rparr>"
  have "length (filter (\<lambda>p. profile_user p = user_id u) (profiles ?s1)) \<le> 1"
    using assms(1) by simp
  then obtain p pcr ps where p:
    "UserProfile_get_or_create (user_id u) ?s1 = (Inr (p, pcr), ?s1\<lparr>profiles := ps\<rparr>)"
    "filter (\<lambda>p. profile_user p = user_id u) ps = [p]"
    "length (filter (\<lambda>p. profile_user p = user_id u) (profiles ?s1)) = 1 \<longrightarrow> ps = profiles ?s1"
    using UserProfile_get_or_create_ok [of "user_id u" ?s1] by blast
  let ?s2 = "?s1\<lparr>profiles := ps\<rparr>"
  have "length (filter (\<lambda>w. wishlist_user w = user_id u) (wishlists ?s2)) \<le> 1"
    using assms(3) by simp
  then obtain w wcr ws where w:
    "Wishlist_get_or_create (user_id u) ?s2 = (Inr (w, wcr), ?s2\<lparr>wishlists := ws\<rparr>)"
    "filter (\<lambda>w. wishlist_user w = user_id u) ws = [w]"
    "length (filter (\<lambda>w. wishlist_user w = user_id u) (wishlists ?s2)) = 1 \<longrightarrow> ws = wishlists ?s2"
    using Wishlist_get_or_create_ok [of "user_id u" ?s2] by blast
  let ?out = "printed s @ [''User '' @ username u @ '' created:'', ''  - Cart: '' @ created_text ccr,
      ''  - Profile: '' @ created_text pcr, ''  - Wishlist: '' @ created_text wcr]"
  have run: "provision no_faults u s
             = (None, s\<lparr>carts := cs, profiles := ps, wishlists := ws, printed := ?out\<rparr>)"
    by (simp add: provision_def storage_def no_faults_def c(1) p(1) w(1) print_def)
  show thesis
  proof (rule that [OF run])
    show "dependents (user_id u) (s\<lparr>carts := cs, profiles := ps, wishlists := ws, printed := ?out\<rparr>)
          = (1, 1, 1)"
      by (simp add: dependents_def c(2) p(2) w(2))
    show "dependents (user_id u) s = (1, 1, 1) \<longrightarrow> cs = carts s \<and> ps = profiles s \<and> ws = wishlists s"
      using c(3) p(3) w(3) by (simp add: dependents_def)
  qed
qed

subsection \<open>Provisioning at user creation\<close>

lemma dependents_bounds:
  "dependents uid s = (p, c, w) \<Longrightarrow> p \<le> 1 \<Longrightarrow> c \<le> 1 \<Longrightarrow> w \<le> 1 \<Longrightarrow>
   length (filter (\<lambda>p. profile_user p = uid) (profiles s)) \<le> 1
   \<and> length (filter (\<lambda>c. cart_user c = uid) (carts s)) \<le> 1
   \<and> length (filter (\<lambda>w. wishlist_user w = uid) (wishlists s)) \<le> 1"
  by (auto simp: dependents_def)

lemma provisioning_establishes:
  assumes "dependents (user_id u) s = (p, c, w)" and "p \<le> 1" and "c \<le> 1" and "w \<le> 1"
  shows "dependents (user_id u) (provisioning u s) = (1, 1, 1)"
    and "fst (provision no_faults u s) = None"
    and "dependents (user_id u) s = (1, 1, 1) \<longrightarrow>
         carts (provisioning u s) = carts s \<and> profiles (provisioning u s) = profiles s
         \<and> wishlists (provisioning u s) = wishlists s"
proof -
  note b = dependents_bounds [OF assms]
  obtain cs ps ws out where r:
    "provision no_faults u s = (None, s\<lparr>carts := cs, profiles := ps, wishlists := ws, printed := out\<rparr>)"
    "dependents (user_id u) (s\<lparr>carts := cs, profiles := ps, wishlists := ws, printed := out\<rparr>) = (1, 1, 1)"
    "dependents (user_id u) s = (1, 1, 1) \<longrightarrow> cs = carts s \<and> ps = profiles s \<and> ws = wishlists s"
    by (rule provision_no_faults [OF b [THEN conjunct1] b [THEN conjunct2, THEN conjunct1]
        b [THEN conjunct2, THEN conjunct2]])
  have h: "provisioning u s = s\<lparr>carts := cs, profiles := ps, wishlists := ws, printed := out\<rparr>"
    by (simp add: create_user_profile_and_related_objects_def r(1))
  show "dependents (user_id u) (provisioning u s) = (1, 1, 1)"
    unfolding h by (rule r(2))
  show "fst (provision no_faults u s) = None"
    by (simp add: r(1))
  show "dependents (user_id u) s = (1, 1, 1) \<longrightarrow>
         carts (provisioning u s) = carts s \<and> profiles (provisioning u s) = profiles s
         \<and> wishlists (provisioning u s) = wishlists s"
    unfolding h using r(3) by simp
qed

lemma provisioning_repeated:
  assumes "dependents (user_id u) s = (1, 1, 1)"
  shows "dependents (user_id u) ((provisioning u ^^ n) s) = (1, 1, 1)
         \<and> carts ((provisioning u ^^ n) s) = carts s
         \<and> profiles ((provisioning u ^^ n) s) = profiles s
         \<and> wishlists ((provisioning u ^^ n) s) = wishlists s"
proof (induction n)
  case 0
  show ?case using assms by simp
next
  case (Suc n)
  let ?t = "(provisioning u ^^ n) s"
  from Suc have d: "dependents (user_id u) ?t = (1, 1, 1)" by simp
  have one: "(1::nat) \<le> 1" by simp
  from provisioning_establishes(1) [OF d one one one]
    provisioning_establishes(3) [OF d one one one] d Suc
  show ?case by simp
qed

lemma receivers_on_provisioned:
  assumes "dependents (user_id u) s = (1, 1, 1)"
  shows "create_user_cart no_faults u True s = (None, s)"
    and "create_user_profile no_faults u True s = (None, s)"
    and "create_user_wishlist no_faults u True s = (None, s)"
proof -
  from assms obtain c p w where
    "filter (\<lambda>c. cart_user c = user_id u) (carts s) = [c]"
    "filter (\<lambda>p. profile_user p = user_id u) (profiles s) = [p]"
    "filter (\<lambda>w. wishlist_user w = user_id u) (wishlists s) = [w]"
    by (auto simp: dependents_def length_Suc_conv)
  then show "create_user_cart no_faults u True s = (None, s)"
    and "create_user_profile no_faults u True s = (None, s)"
    and "create_user_wishlist no_faults u True s = (None, s)"
    by (simp_all add: create_user_cart_def create_user_profile_def create_user_wishlist_def
        storage_def no_faults_def Cart_get_or_create_found UserProfile_get_or_create_found
        Wishlist_get_or_create_found)
qed

lemma post_save_User_no_faults:
  assumes "dependents (user_id u) s = (p, c, w)" and "p \<le> 1" and "c \<le> 1" and "w \<le> 1"
  shows "post_save_User no_faults u True s = (None, provisioning u s)"
proof -
  have d: "dependents (user_id u) (provisioning u s) = (1, 1, 1)"
    by (rule provisioning_establishes(1) [OF assms])
  show ?thesis
    by (simp add: post_save_User_def Let_def receivers_on_provisioned [OF d])
qed

text \<open>
  Claim C2. Take a user with at most one profile, one cart and one wishlist (a newly
  created user has none). After the handler has run on a working store the user has
  exactly one of each, and the body raised nothing, so no duplicate-key failure. The
  whole dispatch of \<^verbatim>\<open>post_save\<close> (the handler, then the three single receivers)
  ends in that same store without an exception. Running the handler any number of
  further times leaves the three tables as they are, and again raises nothing.
\<close>

theorem provisioning_exactly_one:
  assumes "dependents (user_id u) s = (p, c, w)" and "p \<le> 1" and "c \<le> 1" and "w \<le> 1"
  shows "dependents (user_id u) (provisioning u s) = (1, 1, 1)
         \<and> fst (provision no_faults u s) = None
         \<and> post_save_User no_faults u True s = (None, provisioning u s)
         \<and> (\<forall>n. carts ((provisioning u ^^ n) (provisioning u s)) = carts (provisioning u s)
                \<and> profiles ((provisioning u ^^ n) (provisioning u s)) = profiles (provisioning u s)
                \<and> wishlists ((provisioning u ^^ n) (provisioning u s)) = wishlists (provisioning u s)
                \<and> fst (provision no_faults u ((provisioning u ^^ n) (provisioning u s))) = None)"
proof (intro conjI allI)
  show d: "dependents (user_id u) (provisioning u s) = (1, 1, 1)"
    by (rule provisioning_establishes(1) [OF assms])
  show "fst (provision no_faults u s) = None"
    by (rule provisioning_establishes(2) [OF assms])
  show "post_save_User no_faults u True s = (None, provisioning u s)"
    by (rule post_save_User_no_faults [OF assms])
  fix n
  note r = provisioning_repeated [OF d, of n]
  show "carts ((provisioning u ^^ n) (provisioning u s)) = carts (provisioning u s)"
    using r by simp
  show "profiles ((provisioning u ^^ n) (provisioning u s)) = profiles (provisioning u s)"
    using r by simp
  show "wishlists ((provisioning u ^^ n) (provisioning u s)) = wishlists (provisioning u s)"
    using r by simp
  have one: "(1::nat) \<le> 1" by simp
  show "fst (provision no_faults u ((provisioning u ^^ n) (provisioning u s))) = None"
    using provisioning_establishes(2) [OF r [THEN conjunct1] one one one] .
qed

theorem provisioning_exactly_one_witness:
  "dependents (user_id carol) shop = (0, 0, 0)
   \<and> dependents (user_id carol) (provisioning carol shop) = (1, 1, 1)
   \<and> carts ((provisioning carol ^^ 2) (provisioning carol shop)) = carts (provisioning carol shop)"
proof -
  have d: "dependents (user_id carol) shop = (0, 0, 0)"
    by code_simp
  have z: "(0::nat) \<le> 1" by simp
  from provisioning_exactly_one [OF d z z z] d show ?thesis
    by blast
qed

subsection \<open>Adding to the cart\<close>





lemma requested_quantity_cases:
  "(POST request ''quantity'' = None \<longrightarrow> requested_quantity request = 1)
   \<and> (\<forall>v. POST request ''quantity'' = Some v \<and> py_int v = None \<longrightarrow> requested_quantity request = 1)
   \<and> (\<forall>v q. POST request ''quantity'' = Some v \<and> py_int v = Some q \<and> q \<le> 0 \<longrightarrow>
          requested_quantity request = 1)
   \<and> (\<forall>v q. POST request ''quantity'' = Some v \<and> py_int v = Some q \<and> 0 < q \<longrightarrow>
          requested_quantity request = q)"
  by (simp add: requested_quantity_def)





subsection \<open>Removing a cart item\<close>

lemma join_one_key:
  "distinct (map k ys) \<Longrightarrow>
   concat (map (\<lambda>c. if k c = a \<and> Q c then [i] else []) ys)
   = (if \<exists>c\<in>set ys. k c = a \<and> Q c then [i] else [])"
proof (induction ys)
  case Nil
  then show ?case by simp
next
  case (Cons y ys)
  then have "k y \<notin> k ` set ys" by simp
  then have "\<forall>c\<in>set ys. k c \<noteq> k y" by (auto simp: image_iff)
  with Cons show ?case by auto
qed

lemma concat_map_if_filter:
  "concat (map (\<lambda>i. if P i then (if Q i then [i] else []) else []) xs)
   = filter (\<lambda>i. P i \<and> Q i) xs"
  by (induction xs) auto

lemma owned_query:
  assumes "distinct (map cart_id (carts s))"
  shows "[i. i \<leftarrow> cart_items s, item_id i = iid,
             c \<leftarrow> carts s, cart_id c = item_cart i, cart_user c = uid]
         = filter (\<lambda>i. item_id i = iid \<and> owns uid i s) (cart_items s)"
proof -
  have inner: "\<And>i :: cart_item. concat (map (\<lambda>c. if cart_id c = item_cart i then
                       (if cart_user c = uid then [i] else []) else []) (carts s))
            = (if owns uid i s then [i] else [])"
  proof -
    fix i :: cart_item
    have "concat (map (\<lambda>c. if cart_id c = item_cart i then
                       (if cart_user c = uid then [i] else []) else []) (carts s))
          = concat (map (\<lambda>c. if cart_id c = item_cart i \<and> cart_user c = uid then [i] else [])
              (carts s))"
      by (rule arg_cong [where f = concat]) (rule map_cong, auto)
    also have "\<dots> = (if owns uid i s then [i] else [])"
      unfolding owns_def by (rule join_one_key [OF assms])
    finally show "concat (map (\<lambda>c. if cart_id c = item_cart i then
                       (if cart_user c = uid then [i] else []) else []) (carts s))
            = (if owns uid i s then [i] else [])" .
  qed
  show ?thesis
    by (simp only: inner concat_map_if_filter)
qed

lemma filter_key_short:
  "distinct (map k xs) \<Longrightarrow> length (filter (\<lambda>x. k x = a \<and> Q x) xs) \<le> 1"
proof (induction xs)
  case Nil
  then show ?case by simp
next
  case (Cons x xs)
  then have "k x \<notin> k ` set xs" by simp
  then have n: "\<forall>y\<in>set xs. k y \<noteq> k x" by (auto simp: image_iff)
  show ?case
  proof (cases "k x = a \<and> Q x")
    case True
    with n have "filter (\<lambda>x. k x = a \<and> Q x) xs = []"
      by (auto simp: filter_empty_conv)
    with True show ?thesis by simp
  next
    case False
    with Cons show ?thesis by auto
  qed
qed

lemma short_list_mem: "length xs \<le> 1 \<Longrightarrow> x \<in> set xs \<Longrightarrow> xs = [x]"
  by (cases xs) auto

lemma length_one: "length xs = 1 \<Longrightarrow> \<exists>x. xs = [x]"
  by (cases xs) auto

lemma remove_from_cart_not_owned:
  assumes "user request = Some u"
    and "distinct (map cart_id (carts s))"
    and "\<not> (\<exists>i\<in>set (cart_items s). item_id i = iid \<and> owns (user_id u) i s)"
  shows "remove_from_cart request iid s
         = (s, [(Error, ''Error removing item from cart.'')], Redirect ''cart'')"
    and "get_object_or_404 [i. i \<leftarrow> cart_items s, item_id i = iid,
             c \<leftarrow> carts s, cart_id c = item_cart i, cart_user c = user_id u] = Inl Http404"
proof -
  from assms(3) have e: "filter (\<lambda>i. item_id i = iid \<and> owns (user_id u) i s) (cart_items s) = []"
    by (auto simp: filter_empty_conv)
  show g: "get_object_or_404 [i. i \<leftarrow> cart_items s, item_id i = iid,
             c \<leftarrow> carts s, cart_id c = item_cart i, cart_user c = user_id u] = Inl Http404"
    unfolding owned_query [OF assms(2)] e by (simp add: get_object_or_404_def orm_get_def)
  show "remove_from_cart request iid s
         = (s, [(Error, ''Error removing item from cart.'')], Redirect ''cart'')"
    by (simp only: remove_from_cart_def assms(1) option.case, simp only: g, simp)
qed

lemma remove_from_cart_owned:
  assumes "user request = Some u"
    and "distinct (map item_id (cart_items s))"
    and "distinct (map cart_id (carts s))"
    and "filter (\<lambda>p. pr_id p = item_product i) (products s) = [p]"
    and "i \<in> set (cart_items s)" and "item_id i = iid" and "owns (user_id u) i s"
  shows "remove_from_cart request iid s
         = (s\<lparr>cart_items := filter (\<lambda>r. item_id r \<noteq> iid) (cart_items s)\<rparr>,
            [(Success, pr_name p @ '' removed from cart.'')], Redirect ''cart'')"
proof -
  let ?f = "filter (\<lambda>i. item_id i = iid \<and> owns (user_id u) i s) (cart_items s)"
  from assms(5,6,7) have m: "i \<in> set ?f" by simp
  have "length ?f \<le> 1" by (rule filter_key_short [OF assms(2)])
  from this m have f: "?f = [i]"
    by (rule short_list_mem)
  have g: "get_object_or_404 [i. i \<leftarrow> cart_items s, item_id i = iid,
             c \<leftarrow> carts s, cart_id c = item_cart i, cart_user c = user_id u] = Inr i"
    unfolding owned_query [OF assms(3)] f by (simp add: get_object_or_404_def orm_get_def)
  show ?thesis
    by (simp only: remove_from_cart_def assms(1) option.case, simp only: g,
        simp add: assms(4) orm_get_def delete_cart_item_def assms(6))
qed

text \<open>
  Claim C7. With distinct item and cart keys and every item pointing to one product:
  when an item with the given key lies in a cart of the requesting user, the view
  deletes exactly the rows of that key and redirects to the cart. When there is no such
  item (the key is unknown, or the item is in another user's cart), the lookup raises
  \<^verbatim>\<open>Http404\<close>, which the view catches: it leaves the store as it is, queues the error
  message and redirects to the cart.
\<close>

theorem remove_from_cart_ownership:
  assumes "user request = Some u"
    and "distinct (map item_id (cart_items s))"
    and "distinct (map cart_id (carts s))"
    and "\<forall>i\<in>set (cart_items s).
           length (filter (\<lambda>p. pr_id p = item_product i) (products s)) = 1"
  shows "((\<exists>i\<in>set (cart_items s). item_id i = iid \<and> owns (user_id u) i s) \<longrightarrow>
            fst (remove_from_cart request iid s)
            = s\<lparr>cart_items := filter (\<lambda>r. item_id r \<noteq> iid) (cart_items s)\<rparr>
            \<and> snd (snd (remove_from_cart request iid s)) = Redirect ''cart'')
         \<and> (\<not> (\<exists>i\<in>set (cart_items s). item_id i = iid \<and> owns (user_id u) i s) \<longrightarrow>
              get_object_or_404 [i. i \<leftarrow> cart_items s, item_id i = iid,
                  c \<leftarrow> carts s, cart_id c = item_cart i, cart_user c = user_id u] = Inl Http404
              \<and> remove_from_cart request iid s
                = (s, [(Error, ''Error removing item from cart.'')], Redirect ''cart''))"
proof (intro conjI impI)
  assume "\<exists>i\<in>set (cart_items s). item_id i = iid \<and> owns (user_id u) i s"
  then obtain i where i: "i \<in> set (cart_items s)" "item_id i = iid" "owns (user_id u) i s"
    by blast
  from assms(4) [rule_format, OF i(1)]
  have "\<exists>p. filter (\<lambda>p. pr_id p = item_product i) (products s) = [p]"
    by (rule length_one)
  then obtain p where p: "filter (\<lambda>p. pr_id p = item_product i) (products s) = [p]" ..
  note r = remove_from_cart_owned [OF assms(1,2,3) p i]
  show "fst (remove_from_cart request iid s)
        = s\<lparr>cart_items := filter (\<lambda>r. item_id r \<noteq> iid) (cart_items s)\<rparr>"
    unfolding r by simp
  show "snd (snd (remove_from_cart request iid s)) = Redirect ''cart''"
    unfolding r by simp
next
  assume n: "\<not> (\<exists>i\<in>set (cart_items s). item_id i = iid \<and> owns (user_id u) i s)"
  show "get_object_or_404 [i. i \<leftarrow> cart_items s, item_id i = iid,
                  c \<leftarrow> carts s, cart_id c = item_cart i, cart_user c = user_id u] = Inl Http404"
    by (rule remove_from_cart_not_owned(2) [OF assms(1,3) n])
  show "remove_from_cart request iid s
        = (s, [(Error, ''Error removing item from cart.'')], Redirect ''cart'')"
    by (rule remove_from_cart_not_owned(1) [OF assms(1,3) n])
qed


theorem remove_from_cart_ownership_witness:
  "fst (remove_from_cart (post_request ann []) 1 shop)
   = shop\<lparr>cart_items := [\<lparr>item_id = 2, item_cart = 1, item_product = 3, quantity = 1\<rparr>,
                          \<lparr>item_id = 3, item_cart = 2, item_product = 2, quantity = 1\<rparr>]\<rparr>
   \<and> remove_from_cart (post_request ann []) 3 shop
     = (shop, [(Error, ''Error removing item from cart.'')], Redirect ''cart'')
   \<and> remove_from_cart (post_request ann []) 9 shop
     = (shop, [(Error, ''Error removing item from cart.'')], Redirect ''cart'')"
proof -
  let ?r = "post_request ann []"
  have h1: "user ?r = Some ann" by code_simp
  have h2: "distinct (map item_id (cart_items shop))" by code_simp
  have h3: "distinct (map cart_id (carts shop))" by code_simp
  have h4: "\<forall>i\<in>set (cart_items shop).
              length (filter (\<lambda>p. pr_id p = item_product i) (products shop)) = 1"
    by code_simp
  note t = remove_from_cart_ownership [OF h1 h2 h3 h4]
  have own: "\<exists>i\<in>set (cart_items shop). item_id i = 1 \<and> owns (user_id ann) i shop"
    by code_simp
  have other: "\<not> (\<exists>i\<in>set (cart_items shop). item_id i = 3 \<and> owns (user_id ann) i shop)"
    by code_simp
  have unknown: "\<not> (\<exists>i\<in>set (cart_items shop). item_id i = 9 \<and> owns (user_id ann) i shop)"
    by code_simp
  have rest: "filter (\<lambda>r. item_id r \<noteq> 1) (cart_items shop)
              = [\<lparr>item_id = 2, item_cart = 1, item_product = 3, quantity = 1\<rparr>,
                 \<lparr>item_id = 3, item_cart = 2, item_product = 2, quantity = 1\<rparr>]"
    by code_simp
  have a: "fst (remove_from_cart ?r 1 shop)
           = shop\<lparr>cart_items := [\<lparr>item_id = 2, item_cart = 1, item_product = 3, quantity = 1\<rparr>,
                          \<lparr>item_id = 3, item_cart = 2, item_product = 2, quantity = 1\<rparr>]\<rparr>"
    using t [of 1, THEN conjunct1, THEN mp, OF own, THEN conjunct1] by (simp only: rest)
  have b: "remove_from_cart ?r 3 shop
           = (shop, [(Error, ''Error removing item from cart.'')], Redirect ''cart'')"
    by (rule t [of 3, THEN conjunct2, THEN mp, OF other, THEN conjunct2])
  have c: "remove_from_cart ?r 9 shop
           = (shop, [(Error, ''Error removing item from cart.'')], Redirect ''cart'')"
    by (rule t [of 9, THEN conjunct2, THEN mp, OF unknown, THEN conjunct2])
  from a b c show ?thesis by (intro conjI)
qed

subsection \<open>The wishlist\<close>

lemma get_or_create_result:
  assumes "get_or_create matches mk pk clash rows = (Inr (r, cr), rows')"
    and "\<And>n. matches (mk n)"
  shows "filter matches rows' = [r]"
proof (cases "filter matches rows")
  case Nil
  with assms(1) have "r = mk (next_id (map pk rows)) \<and> rows' = rows @ [r]"
    by (auto simp: get_or_create_def orm_get_def Let_def split: if_splits)
  with Nil assms(2) show ?thesis by simp
next
  case (Cons x xs)
  with assms(1) show ?thesis
    by (cases xs) (auto simp: get_or_create_def orm_get_def)
qed

lemma Wishlist_get_or_create_result:
  assumes "Wishlist_get_or_create uid s = (Inr (w, cr), s1)"
  shows "filter (\<lambda>w. wishlist_user w = uid) (wishlists s1) = [w]"
    and "products s1 = products s" and "wishlist_products s1 = wishlist_products s"
proof -
  obtain res rows where g: "get_or_create (\<lambda>w. wishlist_user w = uid)
             (\<lambda>i. \<lparr>wishlist_id = i, wishlist_user = uid\<rparr>)
             wishlist_id (\<lambda>x r. wishlist_user x = wishlist_user r) (wishlists s) = (res, rows)"
    by (rule prod.exhaust)
  with assms have r: "res = Inr (w, cr)" and s1: "s1 = s\<lparr>wishlists := rows\<rparr>"
    by (simp_all add: Wishlist_get_or_create_def)
  have m: "\<And>n. wishlist_user \<lparr>wishlist_id = n, wishlist_user = uid\<rparr> = uid"
    by simp
  from g [unfolded r] have "filter (\<lambda>w. wishlist_user w = uid) rows = [w]"
    by (rule get_or_create_result) (rule m)
  then show "filter (\<lambda>w. wishlist_user w = uid) (wishlists s1) = [w]"
    by (simp add: s1)
  show "products s1 = products s" and "wishlist_products s1 = wishlist_products s"
    by (simp_all add: s1)
qed

lemma Wishlist_get_or_create_links:
  "wishlist_products (snd (Wishlist_get_or_create uid s)) = wishlist_products s"
  by (simp add: Wishlist_get_or_create_def split_def)

lemma wishlist_has_iff:
  assumes "filter (\<lambda>p. pr_id p = product_id) (products s) = [product]"
  shows "wishlist_has w product_id s \<longleftrightarrow> (wishlist_id w, product_id) \<in> set (wishlist_products s)"
proof -
  from assms have "product \<in> set (filter (\<lambda>p. pr_id p = product_id) (products s))" by simp
  then have p: "product \<in> set (products s)" "pr_id product = product_id" by simp_all
  have "wishlist_has w product_id s \<longleftrightarrow>
        set [p. (wid, pid) \<leftarrow> wishlist_products s, wid = wishlist_id w,
                p \<leftarrow> products s, pr_id p = pid, pr_id p = product_id] \<noteq> {}"
    unfolding wishlist_has_def by (simp only: set_empty)
  also have "\<dots> \<longleftrightarrow> (wishlist_id w, product_id) \<in> set (wishlist_products s)"
    using p by (auto split: if_splits) 
  finally show ?thesis .
qed


lemma add_to_wishlist_run:
  assumes "user request = Some u"
    and "filter (\<lambda>p. pr_id p = product_id) (products s) = [product]"
    and "Wishlist_get_or_create (user_id u) s = (Inr (w, created), s1)"
  shows "add_to_wishlist request product_id s
         = (if (wishlist_id w, product_id) \<in> set (wishlist_products s)
            then (s1, [(Info, pr_name product @ '' is already in your wishlist!'')],
                  Redirect_arg ''product_detail'' product_id)
            else (s1\<lparr>wishlist_products := wishlist_products s @ [(wishlist_id w, product_id)]\<rparr>,
                  [(Success, pr_name product @ '' added to wishlist!'')],
                  Redirect_arg ''product_detail'' product_id))"
proof -
  note r = Wishlist_get_or_create_result [OF assms(3)]
  from assms(2) r(2) have p1: "filter (\<lambda>p. pr_id p = product_id) (products s1) = [product]"
    by simp
  have h: "wishlist_has w product_id s1
           \<longleftrightarrow> (wishlist_id w, product_id) \<in> set (wishlist_products s)"
    unfolding wishlist_has_iff [OF p1] r(3) ..
  from assms(2) have "product \<in> set (filter (\<lambda>p. pr_id p = product_id) (products s))" by simp
  then have pid: "pr_id product = product_id" by simp
  show ?thesis
    by (simp add: add_to_wishlist_def assms get_object_or_404_def orm_get_def h
        products_add_def r(3) pid)
qed

lemma remove_from_wishlist_run:
  assumes "user request = Some u"
    and "filter (\<lambda>p. pr_id p = product_id) (products s) = [product]"
    and "Wishlist_get_or_create (user_id u) s = (Inr (w, created), s1)"
  shows "remove_from_wishlist request product_id s
         = (if (wishlist_id w, product_id) \<in> set (wishlist_products s)
            then (s1\<lparr>wishlist_products :=
                       filter (\<lambda>l. l \<noteq> (wishlist_id w, product_id)) (wishlist_products s)\<rparr>,
                  [(Success, pr_name product @ '' removed from wishlist.'')],
                  Redirect ''wishlist'')
            else (s1, [(Info, ''Product was not in your wishlist.'')], Redirect ''wishlist''))"
proof -
  note r = Wishlist_get_or_create_result [OF assms(3)]
  from assms(2) r(2) have p1: "filter (\<lambda>p. pr_id p = product_id) (products s1) = [product]"
    by simp
  have h: "wishlist_has w product_id s1
           \<longleftrightarrow> (wishlist_id w, product_id) \<in> set (wishlist_products s)"
    unfolding wishlist_has_iff [OF p1] r(3) ..
  from assms(2) have "product \<in> set (filter (\<lambda>p. pr_id p = product_id) (products s))" by simp
  then have pid: "pr_id product = product_id" by simp
  show ?thesis
    by (simp add: remove_from_wishlist_def assms get_object_or_404_def orm_get_def h
        products_remove_def r(3) pid)
qed

lemma products_add_distinct:
  "distinct (wishlist_products s) \<Longrightarrow> distinct (wishlist_products (products_add w p s))"
  by (simp add: products_add_def)

lemma add_to_wishlist_distinct:
  assumes "distinct (wishlist_products s)"
  shows "distinct (wishlist_products (fst (add_to_wishlist request product_id s)))"
proof -
  have l: "\<And>uid. distinct (wishlist_products (snd (Wishlist_get_or_create uid s)))"
    using assms by (simp only: Wishlist_get_or_create_links)
  show ?thesis
  proof (cases "user request")
    case None
    with assms show ?thesis by (simp add: add_to_wishlist_def)
  next
    case (Some u)
    show ?thesis
    proof (cases "get_object_or_404 (filter (\<lambda>p. pr_id p = product_id) (products s))")
      case (Inl e)
      with Some assms show ?thesis by (simp add: add_to_wishlist_def)
    next
      case (Inr product)
      obtain res s1 where g: "Wishlist_get_or_create (user_id u) s = (res, s1)"
        by (rule prod.exhaust)
      with l [of "user_id u"] have d1: "distinct (wishlist_products s1)" by simp
      show ?thesis
      proof (cases res)
        case (Inl e)
        with Some Inr g d1 show ?thesis by (simp add: add_to_wishlist_def)
      next
        case r: (Inr wc)
        obtain w created where wc: "wc = (w, created)" by (rule prod.exhaust)
        from products_add_distinct [OF d1, of w product] d1 Some Inr g r wc
        show ?thesis by (simp add: add_to_wishlist_def)
      qed
    qed
  qed
qed

lemma add_calls_distinct:
  "distinct (wishlist_products s) \<Longrightarrow>
   distinct (wishlist_products
     (fold (\<lambda>call t. fst (add_to_wishlist (fst call) (snd call) t)) calls s))"
  by (induction calls arbitrary: s) (simp_all add: add_to_wishlist_distinct)

lemma add_to_wishlist_again:
  assumes "user request = Some u"
    and "filter (\<lambda>p. pr_id p = product_id) (products s) = [product]"
    and "Wishlist_get_or_create (user_id u) s = (Inr (w, created), s1)"
  shows "add_to_wishlist request product_id (fst (add_to_wishlist request product_id s))
         = (fst (add_to_wishlist request product_id s),
            [(Info, pr_name product @ '' is already in your wishlist!'')],
            Redirect_arg ''product_detail'' product_id)"
proof -
  let ?s2 = "fst (add_to_wishlist request product_id s)"
  note r = Wishlist_get_or_create_result [OF assms(3)]
  note run = add_to_wishlist_run [OF assms]
  have w2: "wishlists ?s2 = wishlists s1" and p2: "products ?s2 = products s"
    and l2: "(wishlist_id w, product_id) \<in> set (wishlist_products ?s2)"
    unfolding run by (simp_all add: r)
  from r(1) w2 have "filter (\<lambda>w. wishlist_user w = user_id u) (wishlists ?s2) = [w]" by simp
  then have g2: "Wishlist_get_or_create (user_id u) ?s2 = (Inr (w, False), ?s2)"
    by (rule Wishlist_get_or_create_found)
  from assms(2) p2 have pr2: "filter (\<lambda>p. pr_id p = product_id) (products ?s2) = [product]"
    by simp
  from add_to_wishlist_run [OF assms(1) pr2 g2] l2 show ?thesis
    by (simp only: if_True)
qed

lemma remove_from_wishlist_again:
  assumes "user request = Some u"
    and "filter (\<lambda>p. pr_id p = product_id) (products s) = [product]"
    and "Wishlist_get_or_create (user_id u) s = (Inr (w, created), s1)"
  shows "remove_from_wishlist request product_id (fst (remove_from_wishlist request product_id s))
         = (fst (remove_from_wishlist request product_id s),
            [(Info, ''Product was not in your wishlist.'')], Redirect ''wishlist'')"
proof -
  let ?s2 = "fst (remove_from_wishlist request product_id s)"
  note r = Wishlist_get_or_create_result [OF assms(3)]
  note run = remove_from_wishlist_run [OF assms]
  have w2: "wishlists ?s2 = wishlists s1" and p2: "products ?s2 = products s"
    and l2: "(wishlist_id w, product_id) \<notin> set (wishlist_products ?s2)"
    unfolding run by (simp_all add: r)
  from r(1) w2 have "filter (\<lambda>w. wishlist_user w = user_id u) (wishlists ?s2) = [w]" by simp
  then have g2: "Wishlist_get_or_create (user_id u) ?s2 = (Inr (w, False), ?s2)"
    by (rule Wishlist_get_or_create_found)
  from assms(2) p2 have pr2: "filter (\<lambda>p. pr_id p = product_id) (products ?s2) = [product]"
    by simp
  from remove_from_wishlist_run [OF assms(1) pr2 g2] l2 show ?thesis
    by (simp only: if_False)
qed

text \<open>
  Claim C6. An authenticated user, an existing product, and \<open>w\<close> the user's wishlist as
  \<^verbatim>\<open>get_or_create\<close> returns it. Adding a product that the wishlist holds changes no
  link and reports "already in your wishlist" as information. Removing a product that the
  wishlist does not hold changes no link and reports "was not in your wishlist" as
  information. A second add after an add, and a second remove after a remove, leave the
  store exactly as the first left it and give those same reports. No sequence of add
  calls, by whatever users and for whatever products, puts a duplicate into a link table
  that had none.
\<close>

theorem wishlist_idempotent:
  assumes "user request = Some u"
    and "filter (\<lambda>p. pr_id p = product_id) (products s) = [product]"
    and "Wishlist_get_or_create (user_id u) s = (Inr (w, created), s1)"
  shows "((wishlist_id w, product_id) \<in> set (wishlist_products s) \<longrightarrow>
            add_to_wishlist request product_id s
            = (s1, [(Info, pr_name product @ '' is already in your wishlist!'')],
               Redirect_arg ''product_detail'' product_id)
            \<and> wishlist_products s1 = wishlist_products s)
         \<and> ((wishlist_id w, product_id) \<notin> set (wishlist_products s) \<longrightarrow>
              remove_from_wishlist request product_id s
              = (s1, [(Info, ''Product was not in your wishlist.'')], Redirect ''wishlist'')
              \<and> wishlist_products s1 = wishlist_products s)
         \<and> add_to_wishlist request product_id (fst (add_to_wishlist request product_id s))
           = (fst (add_to_wishlist request product_id s),
              [(Info, pr_name product @ '' is already in your wishlist!'')],
              Redirect_arg ''product_detail'' product_id)
         \<and> remove_from_wishlist request product_id
             (fst (remove_from_wishlist request product_id s))
           = (fst (remove_from_wishlist request product_id s),
              [(Info, ''Product was not in your wishlist.'')], Redirect ''wishlist'')
         \<and> (\<forall>calls. distinct (wishlist_products s) \<longrightarrow>
               distinct (wishlist_products
                 (fold (\<lambda>call t. fst (add_to_wishlist (fst call) (snd call) t)) calls s)))"
proof (intro conjI impI allI)
  note r = Wishlist_get_or_create_result [OF assms(3)]
  show "wishlist_products s1 = wishlist_products s" by (rule r(3))
  show "wishlist_products s1 = wishlist_products s" by (rule r(3))
  show "add_to_wishlist request product_id (fst (add_to_wishlist request product_id s))
        = (fst (add_to_wishlist request product_id s),
           [(Info, pr_name product @ '' is already in your wishlist!'')],
           Redirect_arg ''product_detail'' product_id)"
    by (rule add_to_wishlist_again [OF assms])
  show "remove_from_wishlist request product_id
          (fst (remove_from_wishlist request product_id s))
        = (fst (remove_from_wishlist request product_id s),
           [(Info, ''Product was not in your wishlist.'')], Redirect ''wishlist'')"
    by (rule remove_from_wishlist_again [OF assms])
next
  assume "(wishlist_id w, product_id) \<in> set (wishlist_products s)"
  with add_to_wishlist_run [OF assms]
  show "add_to_wishlist request product_id s
        = (s1, [(Info, pr_name product @ '' is already in your wishlist!'')],
           Redirect_arg ''product_detail'' product_id)"
    by (simp only: if_True)
next
  assume "(wishlist_id w, product_id) \<notin> set (wishlist_products s)"
  with remove_from_wishlist_run [OF assms]
  show "remove_from_wishlist request product_id s
        = (s1, [(Info, ''Product was not in your wishlist.'')], Redirect ''wishlist'')"
    by (simp only: if_False)
next
  fix calls
  assume "distinct (wishlist_products s)"
  then show "distinct (wishlist_products
               (fold (\<lambda>call t. fst (add_to_wishlist (fst call) (snd call) t)) calls s))"
    by (rule add_calls_distinct)
qed

theorem wishlist_idempotent_witness:
  "add_to_wishlist (post_request ann []) 2 shop
   = (shop, [(Info, ''Coat is already in your wishlist!'')], Redirect_arg ''product_detail'' 2)
   \<and> remove_from_wishlist (post_request ann []) 3 shop
     = (shop, [(Info, ''Product was not in your wishlist.'')], Redirect ''wishlist'')
   \<and> wishlist_products
       (fst (add_to_wishlist (post_request ann []) 3
          (fst (add_to_wishlist (post_request ann []) 3 shop))))
     = [(1, 2), (1, 3)]
   \<and> distinct (wishlist_products
       (fold (\<lambda>call t. fst (add_to_wishlist (fst call) (snd call) t))
          [(post_request ann [], 3), (post_request ann [], 3), (post_request bob [], 3)] shop))"
proof -
  let ?r = "post_request ann []"
  let ?w = "\<lparr>wishlist_id = 1, wishlist_user = 1\<rparr>"
  have u: "user ?r = Some ann" by code_simp
  have p2: "filter (\<lambda>p. pr_id p = 2) (products shop) = [coat]" by code_simp
  have p3: "filter (\<lambda>p. pr_id p = 3) (products shop) = [scarf]" by code_simp
  have g: "Wishlist_get_or_create (user_id ann) shop = (Inr (?w, False), shop)" by code_simp
  have m2: "(wishlist_id ?w, 2) \<in> set (wishlist_products shop)" by code_simp
  have m3: "(wishlist_id ?w, 3) \<notin> set (wishlist_products shop)" by code_simp
  have d: "distinct (wishlist_products shop)" by code_simp
  have n2: "pr_name coat @ '' is already in your wishlist!'' = ''Coat is already in your wishlist!''"
    by code_simp
  have once: "wishlist_products (fst (add_to_wishlist ?r 3 shop)) = [(1, 2), (1, 3)]"
    by code_simp
  have a: "add_to_wishlist ?r 2 shop
           = (shop, [(Info, ''Coat is already in your wishlist!'')],
              Redirect_arg ''product_detail'' 2)"
    using wishlist_idempotent [OF u p2 g, THEN conjunct1, THEN mp, OF m2, THEN conjunct1]
    by (simp only: n2)
  have b: "remove_from_wishlist ?r 3 shop
           = (shop, [(Info, ''Product was not in your wishlist.'')], Redirect ''wishlist'')"
    by (rule wishlist_idempotent [OF u p3 g, THEN conjunct2, THEN conjunct1, THEN mp, OF m3,
          THEN conjunct1])
  have "fst (add_to_wishlist ?r 3 (fst (add_to_wishlist ?r 3 shop)))
        = fst (add_to_wishlist ?r 3 shop)"
    using wishlist_idempotent [OF u p3 g, THEN conjunct2, THEN conjunct2, THEN conjunct1]
    by simp
  then have c: "wishlist_products (fst (add_to_wishlist ?r 3 (fst (add_to_wishlist ?r 3 shop))))
                = [(1, 2), (1, 3)]"
    by (simp only: once)
  have e: "distinct (wishlist_products
       (fold (\<lambda>call t. fst (add_to_wishlist (fst call) (snd call) t))
          [(?r, 3), (?r, 3), (post_request bob [], 3)] shop))"
    by (rule wishlist_idempotent [OF u p3 g, THEN conjunct2, THEN conjunct2, THEN conjunct2,
          THEN conjunct2, THEN spec, THEN mp, OF d])
  from a b c e show ?thesis by (intro conjI)
qed

end
